theory Spec2Isabelle
  imports Main "HOL-Library.Sublist"
begin

section \<open>Python values, exceptions and string operations\<close>

text \<open>
  The program is one Python module, \<^verbatim>\<open>streamlit_app.py\<close>. Its strings are modelled as
  \<^typ>\<open>string\<close>: every string the module itself contains is ASCII, except two of the
  canned fallback sentences, whose non-ASCII characters are written as their UTF-8 bytes.
  Exceptions are values of the type \<open>exn\<close>; a computation that may raise returns
  \<open>exn + 'a\<close>, with \<open>Inl\<close> for the raised exception.
\<close>

datatype exn =
    NameError string
  | KeyError string
  | IndexError
  | ValueError
  | TypeError
  | NotModelled
  | ServiceError string

text \<open>
  \<^verbatim>\<open>str.lower()\<close> on ASCII text: the letters \<open>A\<close> to \<open>Z\<close> (codes 65 to 90) get bit 5 set,
  every other character is kept.
\<close>

definition lower_char :: "char \<Rightarrow> char" where
  "lower_char c =
     (if 65 \<le> (of_char c :: nat) \<and> (of_char c :: nat) \<le> 90
      then (case c of Char b0 b1 b2 b3 b4 b5 b6 b7 \<Rightarrow> Char b0 b1 b2 b3 b4 True b6 b7)
      else c)"

definition lower :: "string \<Rightarrow> string" where
  "lower s = map lower_char s"

text \<open>The operator \<^verbatim>\<open>sub in s\<close> on strings: \<open>sub\<close> occurs in \<open>s\<close> as a contiguous run.\<close>

fun str_in :: "string \<Rightarrow> string \<Rightarrow> bool" where
  "str_in sub [] = (sub = [])"
| "str_in sub (c # cs) = (prefix sub (c # cs) \<or> str_in sub cs)"

text \<open>
  \<^verbatim>\<open>str.strip()\<close>: leading and trailing whitespace is removed. The ASCII whitespace
  characters of Python are the codes 9 to 13, 28 to 31 and 32.
\<close>

definition is_space :: "char \<Rightarrow> bool" where
  "is_space c =
     (let n = (of_char c :: nat) in (9 \<le> n \<and> n \<le> 13) \<or> (28 \<le> n \<and> n \<le> 31) \<or> n = 32)"

definition strip :: "string \<Rightarrow> string" where
  "strip s = rev (dropWhile is_space (rev (dropWhile is_space s)))"

text \<open>\<^verbatim>\<open>sep.join(parts)\<close>.\<close>

fun join :: "string \<Rightarrow> string list \<Rightarrow> string" where
  "join sep [] = []"
| "join sep [x] = x"
| "join sep (x # y # ys) = x @ sep @ join sep (y # ys)"

text \<open>\<^verbatim>\<open>str(n)\<close> for an integer: decimal digits, with a minus sign when negative.\<close>

fun str_nat :: "nat \<Rightarrow> string" where
  "str_nat n =
     (if n < 10 then [''0123456789'' ! n]
      else str_nat (n div 10) @ [''0123456789'' ! (n mod 10)])"

declare str_nat.simps [simp del]

definition str_int :: "int \<Rightarrow> string" where
  "str_int i = (if i < 0 then CHR ''-'' # str_nat (nat (- i)) else str_nat (nat i))"

text \<open>
  A scalar of a result row: a string, an integer, or any other value (a decimal, a date,
  \<^verbatim>\<open>None\<close>), which the program only ever turns into text and which is carried by that
  text. \<open>str_of\<close> is \<^verbatim>\<open>str(value)\<close>, which is also what \<^verbatim>\<open>format(value, "")\<close> gives.
\<close>

datatype scalar = VStr string | VInt int | VOther string

fun str_of :: "scalar \<Rightarrow> string" where
  "str_of (VStr s) = s"
| "str_of (VInt i) = str_int i"
| "str_of (VOther s) = s"

text \<open>
  A row of a query result is an insertion-ordered mapping from column names to scalars
  (\<^verbatim>\<open>dict(row)\<close>): an association list with distinct keys, in column order.
\<close>

type_synonym row = "(string \<times> scalar) list"

subsection \<open>\<^verbatim>\<open>str.format\<close> with keyword arguments\<close>

text \<open>
  \<^verbatim>\<open>template.format(**kwargs)\<close> reads the template from left to right. \<^verbatim>\<open>{{\<close> and
  \<^verbatim>\<open>}}\<close> stand for one brace; \<^verbatim>\<open>{name}\<close> is replaced by the text of \<open>kwargs[name]\<close>;
  a lone \<^verbatim>\<open>}\<close> and an unclosed \<^verbatim>\<open>{\<close> raise \<open>ValueError\<close>. No positional argument is
  ever passed by the program, so an empty or numeric field name raises \<open>IndexError\<close>, and
  a name that is no keyword raises \<open>KeyError\<close>. The first failure from the left is the
  one raised.

  Every template of the module uses plain names only. A replacement field with a
  conversion (\<^verbatim>\<open>!\<close>), a format specification (\<^verbatim>\<open>:\<close>), an attribute (\<^verbatim>\<open>.\<close>), an index
  (\<^verbatim>\<open>[\<close>) or a nested brace lies outside this model and is reported as \<open>NotModelled\<close>.
\<close>

fun take_field :: "string \<Rightarrow> (string \<times> string) option" where
  "take_field [] = None"
| "take_field (c # cs) =
     (if c = CHR ''}'' then Some ([], cs)
      else (case take_field cs of
              None \<Rightarrow> None
            | Some (name, rest) \<Rightarrow> Some (c # name, rest)))"

definition is_digit :: "char \<Rightarrow> bool" where
  "is_digit c = (48 \<le> (of_char c :: nat) \<and> (of_char c :: nat) \<le> 57)"

definition get_field :: "string \<Rightarrow> (string \<rightharpoonup> scalar) \<Rightarrow> exn + string" where
  "get_field name kwargs =
     (if list_ex (\<lambda>c. c \<in> set ''.[!:{'') name then Inl NotModelled
      else if list_all is_digit name then Inl IndexError
      else (case kwargs name of
              None \<Rightarrow> Inl (KeyError name)
            | Some v \<Rightarrow> Inr (str_of v)))"

definition emit :: "string \<Rightarrow> exn + string \<Rightarrow> exn + string" where
  "emit s r = (case r of Inl e \<Rightarrow> Inl e | Inr t \<Rightarrow> Inr (s @ t))"

lemma take_field_shorter:
  "take_field cs = Some (name, rest) \<Longrightarrow> length rest < length cs"
  by (induction cs arbitrary: name rest) (auto split: if_splits option.splits)

function format_map :: "string \<Rightarrow> (string \<rightharpoonup> scalar) \<Rightarrow> exn + string" where
  "format_map [] kwargs = Inr []"
| "format_map (c # cs) kwargs =
     (if c = CHR ''{'' then
        (case cs of
           [] \<Rightarrow> Inl ValueError
         | d # ds \<Rightarrow>
             if d = CHR ''{'' then emit ''{'' (format_map ds kwargs)
             else (case take_field cs of
                     None \<Rightarrow> Inl ValueError
                   | Some (name, rest) \<Rightarrow>
                       (case get_field name kwargs of
                          Inl e \<Rightarrow> Inl e
                        | Inr text \<Rightarrow> emit text (format_map rest kwargs))))
      else if c = CHR ''}'' then
        (case cs of
           [] \<Rightarrow> Inl ValueError
         | d # ds \<Rightarrow>
             if d = CHR ''}'' then emit ''}'' (format_map ds kwargs)
             else Inl ValueError)
      else emit [c] (format_map cs kwargs))"
  by pat_completeness auto

termination
proof (relation "measure (\<lambda>(template, kwargs). length template)")
  fix c d :: char and cs ds :: string and kwargs :: "string \<rightharpoonup> scalar"
    and x name rest
  assume "cs = d # ds" and "take_field cs = Some x" and "(name, rest) = x"
  then have "length rest < length cs"
    using take_field_shorter [of cs name rest] by simp
  then show "((rest, kwargs), c # cs, kwargs) \<in> measure (\<lambda>(template, kwargs). length template)"
    by simp
qed auto

section \<open>The static data of the module\<close>

text \<open>
  An entry of the query guide is a dictionary with the two keys \<^verbatim>\<open>"query"\<close> and
  \<^verbatim>\<open>"response_template"\<close>; the guide itself is a dictionary from question texts to
  entries, iterated in insertion order: an association list.
\<close>

record details =
  query :: string
  response_template :: string

type_synonym catalog = "(string \<times> details) list"

subsection \<open>The query texts of the two catalogs\<close>

definition query_highest_sales_february :: string where
  \<open>query_highest_sales_february =
     ''\<newline>'' @
     ''            SELECT\<newline>'' @
     ''              f2.Branch_ID AS Branch_ID,\<newline>'' @
     ''              f2.Branch_Name AS Branch_Name,\<newline>'' @
     ''              SUM(f2.Total_Monthly_Sales) AS Sales\<newline>'' @
     ''            FROM\<newline>'' @
     ''              `golden-passkey-439311-c8.f2.month_sales_summary` AS f2\<newline>'' @
     ''            WHERE\<newline>'' @
     ''              f2.Year_Month = \'2024-02\'\<newline>'' @
     ''            GROUP BY\<newline>'' @
     ''              f2.Branch_ID, f2.Branch_Name\<newline>'' @
     ''            ORDER BY\<newline>'' @
     ''              Sales DESC\<newline>'' @
     ''            LIMIT 1;\<newline>'' @
     ''        ''\<close>

text \<open>The dictionary bound to \<^verbatim>\<open>query_guide\<close> at line 89 of the module.\<close>

definition query_guide_first :: catalog where
  \<open>query_guide_first =
     [(''Which branch had the highest sales in February?'',
       \<lparr>query = query_highest_sales_february,
        response_template =
          ''The branch with the highest sales in February is {Branch_Name} (ID: {Branch_ID}) with total sales of {Sales} baht.''\<rparr>)]\<close>

definition query_growth_comparison :: string where
  \<open>query_growth_comparison =
     ''\<newline>'' @
     ''            SELECT\<newline>'' @
     ''                f2_year_sales.Year AS Year,\<newline>'' @
     ''                f2_year_sales.Branch_ID AS Branch_ID,\<newline>'' @
     ''                f2_year_sales.Branch_Name AS Branch_Name,\<newline>'' @
     ''                f2_year_sales.Growth_year AS Growth_year\<newline>'' @
     ''            FROM\<newline>'' @
     ''                `golden-passkey-439311-c8.f2.year_sales_summary` AS f2_year_sales\<newline>'' @
     ''            WHERE\<newline>'' @
     ''                f2_year_sales.Year = 2024\<newline>'' @
     ''            GROUP BY\<newline>'' @
     ''                f2_year_sales.Year, f2_year_sales.Branch_ID, f2_year_sales.Branch_Name, f2_year_sales.Growth_year\<newline>'' @
     ''            ORDER BY\<newline>'' @
     ''                Growth_year DESC;\<newline>'' @
     ''        ''\<close>

definition query_growth_each_branch :: string where
  \<open>query_growth_each_branch =
     ''\<newline>'' @
     ''            SELECT\<newline>'' @
     ''                f2_month_sales.Branch_ID AS Branch_ID,\<newline>'' @
     ''                f2_month_sales.Branch_Name AS Branch_Name,\<newline>'' @
     ''                f2_month_sales.Growth_year AS Percentage_Growth_year\<newline>'' @
     ''            FROM\<newline>'' @
     ''                `golden-passkey-439311-c8.f2.month_sales_summary` AS f2_month_sales\<newline>'' @
     ''            WHERE f2_month_sales.Year_Month = \'2024-02\'\<newline>'' @
     ''            GROUP BY\<newline>'' @
     ''                f2_month_sales.Branch_ID, f2_month_sales.Branch_Name, f2_month_sales.Growth_year\<newline>'' @
     ''            ORDER BY\<newline>'' @
     ''                Percentage_Growth_year DESC;\<newline>'' @
     ''        ''\<close>

definition query_customer_count_changes :: string where
  \<open>query_customer_count_changes =
     ''\<newline>'' @
     ''            WITH ranked_data AS (\<newline>'' @
     ''                SELECT\<newline>'' @
     ''                    f2_month_sales.Year_Month AS Year_Month,\<newline>'' @
     ''                    f2_month_sales.Branch_ID AS Branch_ID,\<newline>'' @
     ''                    f2_month_sales.Branch_Name AS Branch_Name,\<newline>'' @
     ''                    f2_month_sales.Number_Of_customer AS Number_Of_customer,\<newline>'' @
     ''                    LAG(f2_month_sales.Number_Of_customer) OVER (\<newline>'' @
     ''                        PARTITION BY f2_month_sales.Branch_ID\<newline>'' @
     ''                        ORDER BY f2_month_sales.Year_Month\<newline>'' @
     ''                    ) AS Last_Month_Customers\<newline>'' @
     ''                FROM\<newline>'' @
     ''                    `golden-passkey-439311-c8.f2.month_sales_summary` AS f2_month_sales\<newline>'' @
     ''            )\<newline>'' @
     ''            SELECT\<newline>'' @
     ''                Branch_ID,\<newline>'' @
     ''                Branch_Name,\<newline>'' @
     ''                Year_Month,\<newline>'' @
     ''                Number_Of_customer,\<newline>'' @
     ''                Last_Month_Customers,\<newline>'' @
     ''                Number_Of_customer - Last_Month_Customers AS Difference\<newline>'' @
     ''            FROM ranked_data\<newline>'' @
     ''            WHERE Year_Month = \'2024-02\'\<newline>'' @
     ''            ORDER BY\<newline>'' @
     ''                Year_Month DESC;\<newline>'' @
     ''        ''\<close>

definition query_customer_count_increased :: string where
  \<open>query_customer_count_increased =
     ''\<newline>'' @
     ''            SELECT\<newline>'' @
     ''                daily_sales.Sales_Date AS Sales_Date,\<newline>'' @
     ''                daily_sales.Branch_ID AS Branch_ID,\<newline>'' @
     ''                daily_sales.Branch_Name AS Branch_Name,\<newline>'' @
     ''                daily_sales.Total_Daily_Sales AS Total_Daily_Sales\<newline>'' @
     ''            FROM `golden-passkey-439311-c8.f2.daily_sales_summary` AS daily_sales\<newline>'' @
     ''            WHERE DATE(daily_sales.Sales_Date) BETWEEN \'2024-02-01\' AND \'2024-02-29\'\<newline>'' @
     ''            GROUP BY daily_sales.Branch_ID, daily_sales.Branch_Name, daily_sales.Sales_Date, daily_sales.Total_Daily_Sales;\<newline>'' @
     ''        ''\<close>

definition query_todays_sales :: string where
  \<open>query_todays_sales =
     ''\<newline>'' @
     ''            SELECT\<newline>'' @
     ''                Branch_ID,\<newline>'' @
     ''                Branch_Name,\<newline>'' @
     ''                SUM(Total_Daily_Sales) AS Today_Sales\<newline>'' @
     ''            FROM `golden-passkey-439311-c8.f2.daily_sales_summary`\<newline>'' @
     ''            WHERE DATE(Sales_Date) = \'2024-02-29\'\<newline>'' @
     ''            GROUP BY Branch_ID, Branch_Name;\<newline>'' @
     ''        ''\<close>

definition query_end_of_month_target :: string where
  \<open>query_end_of_month_target =
     ''\<newline>'' @
     ''            SELECT\<newline>'' @
     ''                Branch_ID,\<newline>'' @
     ''                Branch_Name,\<newline>'' @
     ''                Total_Monthly_Sales AS Actual_Sales,\<newline>'' @
     ''                Monthly_Target AS Target_Sales,\<newline>'' @
     ''                Total_Monthly_Sales - Monthly_Target AS Diff\<newline>'' @
     ''            FROM `golden-passkey-439311-c8.f2.month_sales_summary`\<newline>'' @
     ''            WHERE Year_Month = \'2024-02\'\<newline>'' @
     ''            ORDER BY Diff ASC\<newline>'' @
     ''            LIMIT 1;\<newline>'' @
     ''        ''\<close>

definition query_reach_target :: string where
  \<open>query_reach_target =
     ''\<newline>'' @
     ''            SELECT\<newline>'' @
     ''                Year_Month,\<newline>'' @
     ''                Branch_ID,\<newline>'' @
     ''                Branch_Name,\<newline>'' @
     ''                Total_Monthly_Sales AS This_Month_Sales,\<newline>'' @
     ''                Last_Month_Sales,\<newline>'' @
     ''                Total_Monthly_Sales - Last_Month_Sales AS Diff\<newline>'' @
     ''            FROM `golden-passkey-439311-c8.f2.month_sales_summary`\<newline>'' @
     ''            WHERE Year_Month = \'2024-02\'\<newline>'' @
     ''            ORDER BY Diff ASC\<newline>'' @
     ''            LIMIT 1;\<newline>'' @
     ''        ''\<close>

definition query_furthest_from_target :: string where
  \<open>query_furthest_from_target =
     ''\<newline>'' @
     ''            SELECT\<newline>'' @
     ''                Branch_ID,\<newline>'' @
     ''                Branch_Name,\<newline>'' @
     ''                Total_Monthly_Sales AS Actual_Sales,\<newline>'' @
     ''                Monthly_Target AS Target_Sales,\<newline>'' @
     ''                Total_Monthly_Sales - Monthly_Target AS Diff\<newline>'' @
     ''            FROM `golden-passkey-439311-c8.f2.month_sales_summary`\<newline>'' @
     ''            WHERE Year_Month = \'2024-02\'\<newline>'' @
     ''            ORDER BY Diff ASC\<newline>'' @
     ''            LIMIT 1;\<newline>'' @
     ''        ''\<close>

text \<open>The dictionary bound to \<^verbatim>\<open>query_guide\<close> at line 234, after the definition of
  \<^verbatim>\<open>categorize_task\<close> and before the page functions run: it replaces the first one.\<close>

definition query_guide_rebound :: catalog where
  \<open>query_guide_rebound =
     [(''Percentage growth comparison for this year vs. last year'',
       \<lparr>query = query_growth_comparison,
        response_template =
          ''Percentage growth comparison for 2024:\<newline>'' @
          ''{result}''\<rparr>),
      (''What is the % growth for each branch?'',
       \<lparr>query = query_growth_each_branch,
        response_template =
          ''Here is the percentage growth for each branch in February 2024:\<newline>'' @
          ''{result}''\<rparr>),
      (''Customer count changes this month'',
       \<lparr>query = query_customer_count_changes,
        response_template =
          ''Here is the customer count change for February 2024:\<newline>'' @
          ''{result}''\<rparr>),
      (''How much has the customer count increased this month?'',
       \<lparr>query = query_customer_count_increased,
        response_template =
          ''Customer count for February 2024 has increased as follows:\<newline>'' @
          ''{result}''\<rparr>),
      (''What are today\'s sales for this branch?'',
       \<lparr>query = query_todays_sales,
        response_template =
          ''Today\'s sales for February 29, 2024, are:\<newline>'' @
          ''{result}''\<rparr>),
      (''End-of-month sales target overview'',
       \<lparr>query = query_end_of_month_target,
        response_template =
          ''End-of-month sales target overview for February 2024:\<newline>'' @
          ''{result}''\<rparr>),
      (''Will the overall sales reach the set target by the end of this month?'',
       \<lparr>query = query_reach_target,
        response_template =
          ''Sales progress for February 2024:\<newline>'' @
          ''{result}''\<rparr>),
      (''Which branch is currently the furthest from its target?'',
       \<lparr>query = query_furthest_from_target,
        response_template =
          ''The branch furthest from its target in February 2024 is {Branch_Name} (ID: {Branch_ID}) with actual sales of {Actual_Sales} baht, a target of {Target_Sales} baht, and a difference of {Diff} baht.''\<rparr>)]\<close>

definition general_info :: string where
  \<open>general_info =
     ''\<newline>'' @
     ''**About Us**  \<newline>'' @
     ''We are a small buffet restaurant steadily growing alongside the delicious flavors we serve.\<newline>'' @
     ''We invite you to savor the taste and variety of dishes we have carefully prepared for you to enjoy during our 2-hour all-you-can-eat experience.  \<newline>'' @
     '' \<newline>'' @
     ''**Price**: Affordable and pocket-friendly, just 299 THB per person.  \<newline>'' @
     ''**Products**: In addition to our delightful and diverse shabu buffet, we also offer bubble tea, our signature secret broths, and exclusive sauces.  \<newline>'' @
     ''**Established**: Providing quality shabu dining since 2023.  \<newline>'' @
     ''**Branches**: 5 convenient locations.  \<newline>'' @
     ''**Operating Hours**: Open daily: 11:00 AM - 10:00 PM.\<newline>''\<close>

definition fallback_responses :: "string list" where
  \<open>fallback_responses =
     [''Shabu is love, shabu is life! Let us know how we can make your dining experience better.'',
      ''Did you know our secret broth recipe has been passed down for generations?'',
      ''You'' @
      [CHR 0xE2, CHR 0x80, CHR 0x99] @
      ''ll love our exclusive sauces! What else would you like to know?'',
      ''Bubble tea and shabu '' @
      [CHR 0xE2, CHR 0x80, CHR 0x93] @
      '' a match made in heaven. Come visit us soon!'',
      ''Our 299 THB buffet is waiting for you! What other questions do you have?'']\<close>

definition sales_summary_query :: string where
  \<open>sales_summary_query =
     ''\<newline>'' @
     ''            SELECT f2.Branch_ID,\<newline>'' @
     ''                   f2.Branch_Name,\<newline>'' @
     ''                   f2.Total_Daily_Sales\<newline>'' @
     ''            FROM `golden-passkey-439311-c8.f2.daily_sales_summary` as f2\<newline>'' @
     ''            WHERE DATE(f2.Sales_date) = (\<newline>'' @
     ''                SELECT MAX(DATE(Sales_date))\<newline>'' @
     ''                FROM `golden-passkey-439311-c8.f2.daily_sales_summary`\<newline>'' @
     ''            );\<newline>'' @
     ''        ''\<close>

definition DAILY_SALES_AGGREGATED_SCHEMA_json :: string where
  \<open>DAILY_SALES_AGGREGATED_SCHEMA_json =
     ''[\<newline>'' @
     ''  {\<newline>'' @
     ''    "table_id": "golden-passkey-439311-c8.f2.Daily_Sales_Aggregated"\<newline>'' @
     ''  },\<newline>'' @
     ''  {\<newline>'' @
     ''    "field_name": "ETL_Date",\<newline>'' @
     ''    "type": "TIMESTAMP",\<newline>'' @
     ''    "description": "The date and time when the data was extracted, transformed, and loaded (ETL)."\<newline>'' @
     ''  },\<newline>'' @
     ''  {\<newline>'' @
     ''    "field_name": "Branch_ID",\<newline>'' @
     ''    "type": "STRING",\<newline>'' @
     ''    "description": "Unique identifier for each branch."\<newline>'' @
     ''  },\<newline>'' @
     ''  {\<newline>'' @
     ''    "field_name": "Sales_Date",\<newline>'' @
     ''    "type": "DATE",\<newline>'' @
     ''    "description": "The date associated with the sales data."\<newline>'' @
     ''  },\<newline>'' @
     ''  {\<newline>'' @
     ''    "field_name": "Total_Daily_Sales",\<newline>'' @
     ''    "type": "NUMERIC(18, 2)",\<newline>'' @
     ''    "description": "Total daily sales amount for the branch."\<newline>'' @
     ''  },\<newline>'' @
     ''  {\<newline>'' @
     ''    "field_name": "Daily_Target",\<newline>'' @
     ''    "type": "NUMERIC(18, 2)",\<newline>'' @
     ''    "description": "The sales target set for the branch for the respective date."\<newline>'' @
     ''  }\<newline>'' @
     '']''\<close>

definition MONTH_SALES_SUMMARY_SCHEMA_json :: string where
  \<open>MONTH_SALES_SUMMARY_SCHEMA_json =
     ''[\<newline>'' @
     ''  {\<newline>'' @
     ''    "table_id": "golden-passkey-439311-c8.f2.month_sales_summary"\<newline>'' @
     ''  },\<newline>'' @
     ''  {\<newline>'' @
     ''    "field_name": "ETL_Date",\<newline>'' @
     ''    "type": "TIMESTAMP",\<newline>'' @
     ''    "description": "Date and time of ETL process."\<newline>'' @
     ''  },\<newline>'' @
     ''  {\<newline>'' @
     ''    "field_name": "Year",\<newline>'' @
     ''    "type": "INTEGER",\<newline>'' @
     ''    "description": "Year of the sales data."\<newline>'' @
     ''  },\<newline>'' @
     ''  {\<newline>'' @
     ''    "field_name": "Year_Month",\<newline>'' @
     ''    "type": "STRING",\<newline>'' @
     ''    "description": "Year and month in \'YYYY-MM\' format."\<newline>'' @
     ''  },\<newline>'' @
     ''  {\<newline>'' @
     ''    "field_name": "Month_Name",\<newline>'' @
     ''    "type": "STRING",\<newline>'' @
     ''    "description": "Month name (e.g., January)."\<newline>'' @
     ''  },\<newline>'' @
     ''  {\<newline>'' @
     ''    "field_name": "Branch_ID",\<newline>'' @
     ''    "type": "STRING",\<newline>'' @
     ''    "description": "Branch identifier."\<newline>'' @
     ''  },\<newline>'' @
     ''  {\<newline>'' @
     ''    "field_name": "Branch_Name",\<newline>'' @
     ''    "type": "STRING",\<newline>'' @
     ''    "description": "Branch name."\<newline>'' @
     ''  },\<newline>'' @
     ''  {\<newline>'' @
     ''    "field_name": "Total_Monthly_Sales",\<newline>'' @
     ''    "type": "NUMERIC",\<newline>'' @
     ''    "description": "Total sales for the branch in the month."\<newline>'' @
     ''  },\<newline>'' @
     ''  {\<newline>'' @
     ''    "field_name": "Monthly_Target",\<newline>'' @
     ''    "type": "NUMERIC",\<newline>'' @
     ''    "description": "Sales target for the branch for the month."\<newline>'' @
     ''  },\<newline>'' @
     ''  {\<newline>'' @
     ''    "field_name": "Number_Of_Customer",\<newline>'' @
     ''    "type": "INTEGER",\<newline>'' @
     ''    "description": "Number of customers served in the month."\<newline>'' @
     ''  }\<newline>'' @
     '']''\<close>

definition general_prompt :: "string \<Rightarrow> string" where
  \<open>general_prompt user_input =
     ''\<newline>'' @
     ''            You are an assistant for a shabu buffet restaurant. Use the following information to answer the user\'s question:\<newline>'' @
     '' \<newline>'' @
     ''            '' @
     general_info @
     ''\<newline>'' @
     '' \<newline>'' @
     ''            User\'s question:\<newline>'' @
     ''            "'' @
     user_input @
     ''"\<newline>'' @
     '' \<newline>'' @
     ''            If you don\'t know the answer, generate a random shabu buffet-related response.\<newline>'' @
     ''            ''\<close>

definition dynamic_query_prompt :: "string \<Rightarrow> string" where
  \<open>dynamic_query_prompt user_input =
     ''\<newline>'' @
     ''                Based on the schema and query guide, generate a SQL query to address the user input:\<newline>'' @
     '' \<newline>'' @
     ''                **Schema Definitions:**\<newline>'' @
     ''                DAILY_SALES_AGGREGATED_SCHEMA:\<newline>'' @
     ''                '' @
     DAILY_SALES_AGGREGATED_SCHEMA_json @
     ''\<newline>'' @
     '' \<newline>'' @
     ''                MONTH_SALES_SUMMARY_SCHEMA:\<newline>'' @
     ''                '' @
     MONTH_SALES_SUMMARY_SCHEMA_json @
     ''\<newline>'' @
     '' \<newline>'' @
     ''                **User Input:**\<newline>'' @
     ''                "'' @
     user_input @
     ''"\<newline>'' @
     '' \<newline>'' @
     ''                Respond with a valid SQL query without explaining it.\<newline>'' @
     ''                ''\<close>

section \<open>External services and module globals\<close>

text \<open>
  The warehouse (\<^verbatim>\<open>client.query(sql).result()\<close>, read into a list of rows) and a
  language model (\<^verbatim>\<open>agent.generate_content(prompt).text\<close>) are functions of the text they
  are sent: each either raises or returns. An \<open>event\<close> records one call that leaves the
  process or writes the error log.
\<close>

type_synonym warehouse = "string \<Rightarrow> exn + row list"

type_synonym agent = "string \<Rightarrow> exn + string"

datatype event =
    WarehouseQuery string
  | GenerateContent string
  | LoggingError string exn
  | StError string exn

fun is_warehouse_query :: "event \<Rightarrow> bool" where
  "is_warehouse_query (WarehouseQuery sql) = True"
| "is_warehouse_query _ = False"

record globals =
  client :: warehouse
  agent_01 :: "agent option"
  agent_02 :: "agent option"
  query_guide :: catalog

text \<open>
  Lines 56 to 70: the three model handles stay \<^verbatim>\<open>None\<close> unless a key was typed in;
  with a key, \<^verbatim>\<open>genai.configure\<close> and three constructor calls run in order and the
  first exception ends the block, leaving the later handles \<^verbatim>\<open>None\<close>.
\<close>

record genai =
  configure :: "string \<Rightarrow> exn option"
  GenerativeModel :: "nat \<Rightarrow> exn + agent"

definition configure_gemini :: "string \<Rightarrow> genai \<Rightarrow> agent option \<times> agent option \<times> agent option" where
  "configure_gemini gemini_api_key api =
     (if gemini_api_key \<noteq> [] then
        (case configure api gemini_api_key of
           Some e \<Rightarrow> (None, None, None)
         | None \<Rightarrow>
             (case GenerativeModel api 0 of
                Inl e \<Rightarrow> (None, None, None)
              | Inr model \<Rightarrow>
                  (case GenerativeModel api 1 of
                     Inl e \<Rightarrow> (Some model, None, None)
                   | Inr a1 \<Rightarrow>
                       (case GenerativeModel api 2 of
                          Inl e \<Rightarrow> (Some model, Some a1, None)
                        | Inr a2 \<Rightarrow> (Some model, Some a1, Some a2)))))
      else (None, None, None))"

section \<open>The general-answer path\<close>

text \<open>
  The module imports \<^verbatim>\<open>streamlit\<close>, \<^verbatim>\<open>google.generativeai\<close>, \<^verbatim>\<open>bigquery\<close>,
  \<^verbatim>\<open>logging\<close>, \<^verbatim>\<open>json\<close> and \<^verbatim>\<open>os\<close> (lines 1 to 6) and binds no other module name.
  The name \<^verbatim>\<open>random\<close> is therefore unbound, and evaluating
  \<^verbatim>\<open>random.choice(fallback_responses)\<close> raises \<open>NameError\<close> before anything is chosen.
\<close>

definition random_choice :: "string list \<Rightarrow> exn + string" where
  "random_choice responses = Inl (NameError ''random'')"

text \<open>
  \<^verbatim>\<open>handle_general_questions\<close>, lines 137 to 161. The body of the \<^verbatim>\<open>try\<close> is the
  inner \<open>case\<close>; the handler logs and evaluates \<^verbatim>\<open>random.choice\<close> again, outside any
  \<^verbatim>\<open>try\<close>.
\<close>

definition handle_general_questions :: "globals \<Rightarrow> string \<Rightarrow> (exn + string) \<times> event list" where
  "handle_general_questions g user_input =
     (case agent_02 g of
        Some agent \<Rightarrow>
          (case (case agent (general_prompt user_input) of
                   Inl e \<Rightarrow> Inl e
                 | Inr response_text \<Rightarrow>
                     if strip response_text \<noteq> [] then Inr (strip response_text)
                     else random_choice fallback_responses) of
             Inr answer \<Rightarrow> (Inr answer, [GenerateContent (general_prompt user_input)])
           | Inl e \<Rightarrow>
               (random_choice fallback_responses,
                [GenerateContent (general_prompt user_input),
                 LoggingError ''Error in Agent 02 response generation: '' e]))
      | None \<Rightarrow> (Inr ''Agent 02 is not configured. Please provide a valid Gemini API Key.'', []))"

section \<open>The answer router\<close>

definition query_related_keywords :: "string list" where
  "query_related_keywords = [''sales'', ''target'', ''growth'', ''customer'', ''branch'']"

text \<open>Line 169: \<^verbatim>\<open>any(keyword in user_input.lower() for keyword in query_related_keywords)\<close>.\<close>

definition is_query_related :: "string \<Rightarrow> bool" where
  "is_query_related user_input =
     list_ex (\<lambda>keyword. str_in keyword (lower user_input)) query_related_keywords"

text \<open>Lines 187 and 220: one row as \<^verbatim>\<open>key: value\<close> pairs joined by commas, rows joined by newlines.\<close>

definition render_row :: "row \<Rightarrow> string" where
  "render_row r = join '', '' (map (\<lambda>(key, val). key @ '': '' @ str_of val) r)"

definition render_rows :: "row list \<Rightarrow> string" where
  "render_rows result_dict = join ''\<newline>'' (map render_row result_dict)"

text \<open>
  Lines 185 to 190: \<^verbatim>\<open>response_template.format(result=..., **result_dict[0])\<close>. A first
  row with a column called \<^verbatim>\<open>result\<close> gives the keyword twice, which is a \<open>TypeError\<close>.
\<close>

definition format_response :: "string \<Rightarrow> row \<Rightarrow> row list \<Rightarrow> exn + string" where
  "format_response template first_row result_dict =
     (if ''result'' \<in> fst ` set first_row then Inl TypeError
      else format_map template ((map_of first_row)(''result'' \<mapsto> VStr (render_rows result_dict))))"

definition no_results :: string where
  "no_results = ''No results found for your query.''"

text \<open>Lines 175 to 192: what the loop does at the entry it matched.\<close>

definition run_guide_entry :: "warehouse \<Rightarrow> details \<Rightarrow> (exn + string) \<times> event list" where
  "run_guide_entry cl d =
     (case cl (query d) of
        Inl e \<Rightarrow> (Inl e, [WarehouseQuery (query d)])
      | Inr result_dict \<Rightarrow>
          (case result_dict of
             first_row # _ \<Rightarrow>
               (format_response (response_template d) first_row result_dict,
                [WarehouseQuery (query d)])
           | [] \<Rightarrow> (Inr no_results, [WarehouseQuery (query d)])))"

text \<open>
  Lines 173 and 174: the loop over \<^verbatim>\<open>query_guide.items()\<close>. Both branches at a matched
  entry return, so the loop ends at the first match; \<open>None\<close> is the loop running to its end.
\<close>

fun match_query_guide :: "warehouse \<Rightarrow> catalog \<Rightarrow> string \<Rightarrow> ((exn + string) \<times> event list) option" where
  "match_query_guide cl [] user_input = None"
| "match_query_guide cl ((question, d) # rest) user_input =
     (if str_in (lower question) (lower user_input) then Some (run_guide_entry cl d)
      else match_query_guide cl rest user_input)"

text \<open>Lines 194 to 223: the model writes the query, which is run as it comes back.\<close>

definition generate_dynamic_query :: "warehouse \<Rightarrow> agent \<Rightarrow> string \<Rightarrow> (exn + string) \<times> event list" where
  "generate_dynamic_query cl agent user_input =
     (case agent (dynamic_query_prompt user_input) of
        Inl e \<Rightarrow> (Inl e, [GenerateContent (dynamic_query_prompt user_input)])
      | Inr response_text \<Rightarrow>
          (case cl (strip response_text) of
             Inl e \<Rightarrow>
               (Inl e,
                [GenerateContent (dynamic_query_prompt user_input),
                 WarehouseQuery (strip response_text)])
           | Inr result_dict \<Rightarrow>
               (if result_dict \<noteq> [] then Inr (render_rows result_dict) else Inr no_results,
                [GenerateContent (dynamic_query_prompt user_input),
                 WarehouseQuery (strip response_text)])))"

text \<open>Lines 225 to 227: the handler of the router's \<^verbatim>\<open>try\<close>.\<close>

definition absorb :: "(exn + string) \<times> event list \<Rightarrow> (exn + string) \<times> event list" where
  \<open>absorb r =
     (case fst r of
        Inr answer \<Rightarrow> r
      | Inl e \<Rightarrow>
          (Inr ''Sorry, I couldn\'t process your query. Please try again later.'',
           snd r @ [LoggingError ''Error in Agent 01 task categorization: '' e]))\<close>

text \<open>\<^verbatim>\<open>categorize_task\<close>, lines 164 to 232.\<close>

definition categorize_task :: "globals \<Rightarrow> string \<Rightarrow> (exn + string) \<times> event list" where
  "categorize_task g user_input =
     (if is_query_related user_input then
        (case agent_01 g of
           Some agent \<Rightarrow>
             absorb
               (case match_query_guide (client g) (query_guide g) user_input of
                  Some r \<Rightarrow> r
                | None \<Rightarrow> generate_dynamic_query (client g) agent user_input)
         | None \<Rightarrow> (Inr ''Agent 01 is not configured. Please provide a valid Gemini API Key.'', []))
      else handle_general_questions g user_input)"

section \<open>The chat surface\<close>

text \<open>
  \<^verbatim>\<open>display_sales_summary\<close>, lines 111 to 134. Each row is read at three columns;
  a column that is missing raises \<open>KeyError\<close> inside the \<^verbatim>\<open>try\<close>. The function
  returns the joined lines, or \<^verbatim>\<open>None\<close> once anything was raised.
\<close>

definition summary_line :: "row \<Rightarrow> exn + string" where
  "summary_line r =
     (case map_of r ''Branch_ID'' of
        None \<Rightarrow> Inl (KeyError ''Branch_ID'')
      | Some branch_id \<Rightarrow>
          (case map_of r ''Branch_Name'' of
             None \<Rightarrow> Inl (KeyError ''Branch_Name'')
           | Some branch_name \<Rightarrow>
               (case map_of r ''Total_Daily_Sales'' of
                  None \<Rightarrow> Inl (KeyError ''Total_Daily_Sales'')
                | Some total_daily_sales \<Rightarrow>
                    Inr (''Branch '' @ str_of branch_id @ '' '' @ str_of branch_name @
                         '' total sale is '' @ str_of total_daily_sales @ '' baht''))))"

fun summary_lines :: "row list \<Rightarrow> exn + string list" where
  "summary_lines [] = Inr []"
| "summary_lines (r # rs) =
     (case summary_line r of
        Inl e \<Rightarrow> Inl e
      | Inr line \<Rightarrow>
          (case summary_lines rs of
             Inl e \<Rightarrow> Inl e
           | Inr lines \<Rightarrow> Inr (line # lines)))"

definition display_sales_summary :: "warehouse \<Rightarrow> string option \<times> event list" where
  "display_sales_summary cl =
     (case (case cl sales_summary_query of
              Inl e \<Rightarrow> Inl e
            | Inr results \<Rightarrow>
                (case summary_lines results of
                   Inl e \<Rightarrow> Inl e
                 | Inr formatted_summary \<Rightarrow> Inr (join ''\<newline>'' formatted_summary))) of
        Inr summary \<Rightarrow> (Some summary, [WarehouseQuery sales_summary_query])
      | Inl e \<Rightarrow>
          (None,
           [WarehouseQuery sales_summary_query,
            StError ''Error fetching sales summary: '' e,
            LoggingError ''Error fetching sales summary: '' e]))"

text \<open>
  The session state of lines 82 to 86: the chat turns, each a pair of a role and a text,
  and the flag that the summary was shown. It outlives the runs of the script.
\<close>

record session_state =
  chat_history :: "(string \<times> string) list"
  sales_summary_displayed :: bool

definition initial_session :: session_state where
  "initial_session = \<lparr>chat_history = [], sales_summary_displayed = False\<rparr>"

definition no_summary_message :: string where
  "no_summary_message = ''No sales summary available at the moment.''"

text \<open>Lines 423 to 434. A summary that is \<^verbatim>\<open>None\<close> or empty is falsy.\<close>

definition show_sales_summary :: "warehouse \<Rightarrow> string \<Rightarrow> session_state \<Rightarrow> session_state" where
  "show_sales_summary cl gemini_api_key st =
     (if gemini_api_key \<noteq> [] \<and> \<not> sales_summary_displayed st then
        (case fst (display_sales_summary cl) of
           Some summary \<Rightarrow>
             if summary \<noteq> [] then
               st\<lparr>chat_history :=
                    chat_history st @
                    [(''assistant'', ''### Daily Sales Summary:\<newline>\<newline>'' @ summary)],
                  sales_summary_displayed := True\<rparr>
             else
               st\<lparr>chat_history := chat_history st @ [(''assistant'', no_summary_message)],
                  sales_summary_displayed := True\<rparr>
         | None \<Rightarrow>
             st\<lparr>chat_history := chat_history st @ [(''assistant'', no_summary_message)],
                sales_summary_displayed := True\<rparr>)
      else st)"

text \<open>Lines 447 to 449: the role under which the answer is stored.\<close>

definition agent_role :: "string \<Rightarrow> string" where
  "agent_role user_input = (if is_query_related user_input then ''agent_01'' else ''agent_02'')"

text \<open>
  Lines 441 to 451. \<^verbatim>\<open>st.chat_input\<close> gives \<^verbatim>\<open>None\<close> or the text that was sent; an
  empty text is falsy. The user's turn is stored before the router runs, so it stays in
  the history when the router raises; the exception then leaves the function.
\<close>

definition handle_user_input :: "globals \<Rightarrow> string option \<Rightarrow> session_state \<Rightarrow> exn option \<times> session_state" where
  "handle_user_input g chat_input st =
     (case chat_input of
        None \<Rightarrow> (None, st)
      | Some user_input \<Rightarrow>
          if user_input = [] then (None, st)
          else
            (let st1 = st\<lparr>chat_history := chat_history st @ [(''user'', user_input)]\<rparr>
             in case fst (categorize_task g user_input) of
                  Inl e \<Rightarrow> (Some e, st1)
                | Inr response \<Rightarrow>
                    (None,
                     st1\<lparr>chat_history :=
                           chat_history st1 @ [(agent_role user_input, response)]\<rparr>)))"

text \<open>\<^verbatim>\<open>display_chat_page\<close>, lines 393 to 451, without the markup it draws.\<close>

definition display_chat_page :: "globals \<Rightarrow> string \<Rightarrow> string option \<Rightarrow> session_state \<Rightarrow> exn option \<times> session_state" where
  "display_chat_page g gemini_api_key chat_input st =
     handle_user_input g chat_input (show_sales_summary (client g) gemini_api_key st)"

text \<open>
  One run of the script: what the user typed into the sidebar and the chat box, and how
  the services behave during that run. A failed warehouse set-up stops the run at line 79.
  The page functions run after line 234, so the guide they see is the rebound one.
\<close>

datatype page_name = Chat | Dashboard

record run =
  gemini_api_key :: string
  page :: page_name
  chat_input :: "string option"
  genai_api :: genai
  bigquery :: "exn + warehouse"

definition script :: "run \<Rightarrow> session_state \<Rightarrow> exn option \<times> session_state" where
  "script r st =
     (case configure_gemini (gemini_api_key r) (genai_api r) of
        (model, a1, a2) \<Rightarrow>
          (case bigquery r of
             Inl e \<Rightarrow> (None, st)
           | Inr cl \<Rightarrow>
               (case page r of
                  Chat \<Rightarrow>
                    display_chat_page
                      \<lparr>client = cl, agent_01 = a1, agent_02 = a2, query_guide = query_guide_rebound\<rparr>
                      (gemini_api_key r) (chat_input r) st
                | Dashboard \<Rightarrow> (None, st))))"

text \<open>A session is the script run again and again on the state the last run left.\<close>

fun session :: "run list \<Rightarrow> session_state \<Rightarrow> session_state" where
  "session [] st = st"
| "session (r # rs) st = session rs (snd (script r st))"

text \<open>The turns that show the summary, or the message that stands in for it.\<close>

definition summary_turns :: "(string \<times> string) list \<Rightarrow> (string \<times> string) list" where
  "summary_turns history = filter (\<lambda>(role, message). role = ''assistant'') history"

section \<open>Reference notions\<close>

text \<open>
  The catalog lookup in the words of the specification (section 4.1): the entries are
  tried in registration order, and the first one whose canonical question, lowercased, is
  contained in the lowercased user text is returned; without a match, nothing is.
  Containment is \<^const>\<open>sublist\<close>, the contiguous-sublist relation of the library.
\<close>

definition lookup :: "catalog \<Rightarrow> string \<Rightarrow> (string \<times> details) option" where
  "lookup entries user_text =
     find (\<lambda>(canonical_question, d). sublist (lower canonical_question) (lower user_text)) entries"


section \<open>Sample services and sessions\<close>

text \<open>Concrete warehouses, models and runs, on which the properties below are exercised.\<close>

definition empty_warehouse :: warehouse where
  "empty_warehouse sql = Inr []"

definition february_row :: row where
  "february_row =
     [(''Branch_ID'', VStr ''B01''), (''Branch_Name'', VStr ''Silom''), (''Sales'', VInt 150000)]"

definition february_warehouse :: warehouse where
  "february_warehouse sql = Inr [february_row]"


definition failing_agent :: agent where
  "failing_agent prompt = Inl (ServiceError ''unavailable'')"

definition blank_agent :: agent where
  "blank_agent prompt = Inr ''  \<newline>''"

definition hours_agent :: agent where
  "hours_agent prompt = Inr '' Open daily: 11:00 AM - 10:00 PM. ''"

definition sql_agent :: agent where
  "sql_agent prompt = Inr ''SELECT 1;\<newline>''"

definition working_genai :: genai where
  "working_genai = \<lparr>configure = (\<lambda>key. None), GenerativeModel = (\<lambda>n. Inr hours_agent)\<rparr>"

definition failing_genai :: genai where
  "failing_genai = \<lparr>configure = (\<lambda>key. None), GenerativeModel = (\<lambda>n. Inr failing_agent)\<rparr>"

definition sql_genai :: genai where
  "sql_genai = \<lparr>configure = (\<lambda>key. None), GenerativeModel = (\<lambda>n. Inr sql_agent)\<rparr>"

definition first_render :: run where
  "first_render =
     \<lparr>gemini_api_key = ''secret'', page = Chat, chat_input = None,
      genai_api = working_genai, bigquery = Inr empty_warehouse\<rparr>"

definition question_render :: run where
  "question_render =
     \<lparr>gemini_api_key = ''secret'', page = Chat, chat_input = Some ''Is there any branch nearby?'',
      genai_api = working_genai, bigquery = Inr february_warehouse\<rparr>"

definition greeting_render :: run where
  "greeting_render =
     \<lparr>gemini_api_key = ''secret'', page = Chat, chat_input = Some ''hello'',
      genai_api = failing_genai, bigquery = Inr february_warehouse\<rparr>"

definition february_render :: run where
  "february_render =
     \<lparr>gemini_api_key = ''secret'', page = Chat,
      chat_input = Some ''Which branch had the highest sales in February? Please tell me'',
      genai_api = sql_genai, bigquery = Inr february_warehouse\<rparr>"

section \<open>Properties of the string operations\<close>

lemma str_in_iff_sublist: "str_in sub s \<longleftrightarrow> sublist sub s"
  by (induction s) (simp_all add: sublist_Cons_right)

lemma is_query_related_iff:
  "is_query_related user_input \<longleftrightarrow>
     (\<exists>keyword \<in> {''sales'', ''target'', ''growth'', ''customer'', ''branch''}.
        sublist keyword (lower user_input))"
  by (simp add: is_query_related_def query_related_keywords_def str_in_iff_sublist)

section \<open>Properties of the router\<close>

lemma handle_general_questions_no_query:
  "filter is_warehouse_query (snd (handle_general_questions g user_input)) = []"
  by (simp add: handle_general_questions_def random_choice_def split: option.split sum.split)

text \<open>
  Claim C2. A user text whose lowercase form contains none of the five routing keywords is
  answered by the general-answer path, and no query is sent to the warehouse.
\<close>

theorem no_keyword_general_path:
  assumes "\<forall>keyword \<in> {''sales'', ''target'', ''growth'', ''customer'', ''branch''}.
             \<not> sublist keyword (lower user_text)"
  shows "categorize_task g user_text = handle_general_questions g user_text \<and>
         filter is_warehouse_query (snd (categorize_task g user_text)) = []"
proof -
  from assms have "\<not> is_query_related user_text"
    by (simp add: is_query_related_iff)
  then have "categorize_task g user_text = handle_general_questions g user_text"
    by (simp add: categorize_task_def)
  then show ?thesis
    by (simp add: handle_general_questions_no_query)
qed

theorem no_keyword_general_path_witness:
  "categorize_task
     \<lparr>client = empty_warehouse, agent_01 = Some failing_agent, agent_02 = Some hours_agent,
      query_guide = query_guide_rebound\<rparr> ''What are your opening hours?'' =
   (Inr ''Open daily: 11:00 AM - 10:00 PM.'',
    [GenerateContent (general_prompt ''What are your opening hours?'')])"
  using no_keyword_general_path [of "''What are your opening hours?''"
      "\<lparr>client = empty_warehouse, agent_01 = Some failing_agent, agent_02 = Some hours_agent,
        query_guide = query_guide_rebound\<rparr>"]
  by (simp add: str_in_iff_sublist [symmetric] lower_def lower_char_def
      handle_general_questions_def hours_agent_def strip_def is_space_def)

text \<open>
  Claim C10. Without a key no model handle is configured, and every data question, whatever
  the guide holds, is answered by the fixed text about agent 01, with no call to the
  warehouse or to a model.
\<close>

theorem no_credential_no_query:
  assumes "key = []"
    and "configure_gemini key api = (model, a1, a2)"
    and "is_query_related user_input"
  shows "categorize_task \<lparr>client = cl, agent_01 = a1, agent_02 = a2, query_guide = guide\<rparr> user_input =
           (Inr ''Agent 01 is not configured. Please provide a valid Gemini API Key.'', [])"
  using assms by (auto simp add: configure_gemini_def categorize_task_def)

theorem no_credential_no_query_witness:
  "categorize_task
     \<lparr>client = february_warehouse, agent_01 = None, agent_02 = None,
      query_guide = query_guide_rebound\<rparr>
     ''Which branch is currently the furthest from its target?'' =
   (Inr ''Agent 01 is not configured. Please provide a valid Gemini API Key.'', [])"
  using no_credential_no_query [of "[]" working_genai None None None
      "''Which branch is currently the furthest from its target?''" february_warehouse
      query_guide_rebound]
  by (simp add: configure_gemini_def is_query_related_def query_related_keywords_def
      lower_def lower_char_def)

lemma match_query_guide_lookup:
  "match_query_guide cl entries user_text =
     map_option (\<lambda>(question, d). run_guide_entry cl d) (lookup entries user_text)"
  by (induction entries) (auto simp add: lookup_def str_in_iff_sublist)

lemma lookup_first_match:
  assumes "i < length entries"
    and "sublist (lower (fst (entries ! i))) (lower user_text)"
    and "\<forall>j<i. \<not> sublist (lower (fst (entries ! j))) (lower user_text)"
  shows "lookup entries user_text = Some (entries ! i)"
  unfolding lookup_def find_Some_iff
  using assms by (intro exI [of _ i]) (auto simp add: case_prod_beta)

lemma lookup_no_match:
  assumes "\<forall>i<length entries. \<not> sublist (lower (fst (entries ! i))) (lower user_text)"
  shows "lookup entries user_text = None"
  unfolding lookup_def find_None_iff
  using assms by (auto simp add: in_set_conv_nth)

text \<open>
  Claim C1. On a data question with agent 01 configured, the router does what the lookup of
  the specification selects: it runs the entry the lookup returns, and takes the
  dynamic-query path when the lookup returns nothing. The lookup returns the entry at the
  first position, in registration order, whose lowercased question is contained in the
  lowercased user text, and nothing when no question is contained in it.
\<close>

theorem catalog_lookup_first_match:
  assumes "is_query_related user_text" and "agent_01 g = Some agent"
  shows "categorize_task g user_text =
           absorb (case lookup (query_guide g) user_text of
                     Some (question, d) \<Rightarrow> run_guide_entry (client g) d
                   | None \<Rightarrow> generate_dynamic_query (client g) agent user_text) \<and>
         (\<forall>i<length (query_guide g).
            sublist (lower (fst (query_guide g ! i))) (lower user_text) \<and>
            (\<forall>j<i. \<not> sublist (lower (fst (query_guide g ! j))) (lower user_text)) \<longrightarrow>
            lookup (query_guide g) user_text = Some (query_guide g ! i)) \<and>
         ((\<forall>i<length (query_guide g).
             \<not> sublist (lower (fst (query_guide g ! i))) (lower user_text)) \<longrightarrow>
          lookup (query_guide g) user_text = None)"
proof (intro conjI allI impI)
  show "categorize_task g user_text =
          absorb (case lookup (query_guide g) user_text of
                    Some (question, d) \<Rightarrow> run_guide_entry (client g) d
                  | None \<Rightarrow> generate_dynamic_query (client g) agent user_text)"
    using assms
    by (simp add: categorize_task_def match_query_guide_lookup split: option.split)
next
  fix i
  assume "i < length (query_guide g)"
    and "sublist (lower (fst (query_guide g ! i))) (lower user_text) \<and>
         (\<forall>j<i. \<not> sublist (lower (fst (query_guide g ! j))) (lower user_text))"
  then show "lookup (query_guide g) user_text = Some (query_guide g ! i)"
    by (simp add: lookup_first_match)
next
  assume "\<forall>i<length (query_guide g).
            \<not> sublist (lower (fst (query_guide g ! i))) (lower user_text)"
  then show "lookup (query_guide g) user_text = None"
    by (rule lookup_no_match)
qed

theorem catalog_lookup_first_match_witness:
  "categorize_task
     \<lparr>client = empty_warehouse, agent_01 = Some failing_agent, agent_02 = None,
      query_guide = query_guide_rebound\<rparr>
     ''Customer count changes this month, please'' =
   (Inr ''No results found for your query.'', [WarehouseQuery query_customer_count_changes]) \<and>
   lookup query_guide_rebound ''Customer count changes this month, please'' =
   Some (query_guide_rebound ! 2)"
proof -
  let ?u = "''Customer count changes this month, please''"
  let ?g = "\<lparr>client = empty_warehouse, agent_01 = Some failing_agent, agent_02 = None,
             query_guide = query_guide_rebound\<rparr>"
  have related: "is_query_related ?u"
    by (simp add: is_query_related_def query_related_keywords_def lower_def lower_char_def)
  have len: "2 < length query_guide_rebound"
    by (simp add: query_guide_rebound_def)
  have p0: "\<not> sublist (lower (fst (query_guide_rebound ! 0))) (lower ?u)"
    by (simp add: query_guide_rebound_def str_in_iff_sublist [symmetric] lower_def lower_char_def)
  have p1: "\<not> sublist (lower (fst (query_guide_rebound ! Suc 0))) (lower ?u)"
    by (simp add: query_guide_rebound_def str_in_iff_sublist [symmetric] lower_def lower_char_def)
  have p2: "sublist (lower (fst (query_guide_rebound ! 2))) (lower ?u)"
    by (simp add: query_guide_rebound_def str_in_iff_sublist [symmetric] lower_def lower_char_def)
  have before: "\<forall>j<2. \<not> sublist (lower (fst (query_guide_rebound ! j))) (lower ?u)"
    using p0 p1 by (auto simp add: less_2_cases_iff)
  note main = catalog_lookup_first_match [OF related, of ?g failing_agent]
  have sel: "query_guide ?g = query_guide_rebound" "client ?g = empty_warehouse"
    "agent_01 ?g = Some failing_agent"
    by simp_all
  from main [unfolded sel] have found: "lookup query_guide_rebound ?u = Some (query_guide_rebound ! 2)"
    using len p2 before by blast
  have entry: "snd (query_guide_rebound ! 2) =
      \<lparr>query = query_customer_count_changes,
       response_template = ''Here is the customer count change for February 2024:\<newline>{result}''\<rparr>"
    by (simp add: query_guide_rebound_def)
  have run: "absorb (run_guide_entry empty_warehouse (snd (query_guide_rebound ! 2))) =
      (Inr ''No results found for your query.'', [WarehouseQuery query_customer_count_changes])"
    unfolding entry by (simp add: absorb_def run_guide_entry_def empty_warehouse_def no_results_def)
  from main [unfolded sel] have "categorize_task ?g ?u =
      absorb (case lookup query_guide_rebound ?u of
                None \<Rightarrow> generate_dynamic_query empty_warehouse failing_agent ?u
              | Some (question, d) \<Rightarrow> run_guide_entry empty_warehouse d)"
    by blast
  also have "\<dots> = absorb (run_guide_entry empty_warehouse (snd (query_guide_rebound ! 2)))"
    unfolding found by (simp add: case_prod_beta)
  finally show ?thesis
    using run found by simp
qed

lemma match_query_guide_skip:
  assumes "\<forall>(question, d) \<in> set earlier. \<not> sublist (lower question) (lower user_text)"
  shows "match_query_guide cl (earlier @ rest) user_text = match_query_guide cl rest user_text"
  using assms by (induction earlier) (auto simp add: str_in_iff_sublist)

lemma str_int_150000: "str_int 150000 = ''150000''"
  by (simp add: str_int_def str_nat.simps)

lemma february_template_filled:
  "format_response
     ''The branch with the highest sales in February is {Branch_Name} (ID: {Branch_ID}) with total sales of {Sales} baht.''
     february_row [february_row] =
   Inr ''The branch with the highest sales in February is Silom (ID: B01) with total sales of 150000 baht.''"
  by (simp add: format_response_def february_row_def get_field_def emit_def is_digit_def
      str_int_150000)

text \<open>
  The entry for the question about the highest sales in February is registered in the
  dictionary of line 89. In a guide that holds it, with no earlier entry whose question is
  contained in the user text, the router fills its template with the row of branch B01.
\<close>

lemma first_guide_february_sentence:
  assumes "query_guide g =
             earlier @ (''Which branch had the highest sales in February?'', d) # later"
    and "\<forall>(question, e) \<in> set earlier.
           \<not> sublist (lower question)
               (lower ''Which branch had the highest sales in February? Please tell me'')"
    and "response_template d =
           ''The branch with the highest sales in February is {Branch_Name} (ID: {Branch_ID}) with total sales of {Sales} baht.''"
    and "agent_01 g = Some agent"
    and "client g (query d) =
           Inr [[(''Branch_ID'', VStr ''B01''), (''Branch_Name'', VStr ''Silom''),
                 (''Sales'', VInt 150000)]]"
  shows "fst (categorize_task g ''Which branch had the highest sales in February? Please tell me'') =
           Inr ''The branch with the highest sales in February is Silom (ID: B01) with total sales of 150000 baht.''"
proof -
  let ?u = "''Which branch had the highest sales in February? Please tell me''"
  have related: "is_query_related ?u"
    by (simp add: is_query_related_def query_related_keywords_def lower_def lower_char_def)
  have hit: "str_in (lower ''Which branch had the highest sales in February?'') (lower ?u)"
    by (simp add: lower_def lower_char_def)
  have "match_query_guide (client g) (query_guide g) ?u = Some (run_guide_entry (client g) d)"
    using assms(1,2) hit by (simp add: match_query_guide_skip)
  moreover have "run_guide_entry (client g) d =
      (Inr ''The branch with the highest sales in February is Silom (ID: B01) with total sales of 150000 baht.'',
       [WarehouseQuery (query d)])"
    using assms(3,5) february_template_filled
    by (simp add: run_guide_entry_def february_row_def)
  ultimately show ?thesis
    using related assms(4) by (simp add: categorize_task_def absorb_def)
qed

lemma first_guide_february_sentence_example:
  "fst (categorize_task
     \<lparr>client = february_warehouse, agent_01 = Some failing_agent, agent_02 = None,
      query_guide = query_guide_first\<rparr>
     ''Which branch had the highest sales in February? Please tell me'') =
   Inr ''The branch with the highest sales in February is Silom (ID: B01) with total sales of 150000 baht.''"
  using first_guide_february_sentence [of
      "\<lparr>client = february_warehouse, agent_01 = Some failing_agent, agent_02 = None,
        query_guide = query_guide_first\<rparr>"
      "[]"
      "\<lparr>query = query_highest_sales_february,
        response_template = ''The branch with the highest sales in February is {Branch_Name} (ID: {Branch_ID}) with total sales of {Sales} baht.''\<rparr>"
      "[]" failing_agent]
  by (simp add: query_guide_first_def february_warehouse_def february_row_def)

text \<open>
  The guide bound when the page functions run, the dictionary of line 234, does not hold
  that entry: on the same text its lookup finds nothing.
\<close>

lemma rebound_guide_misses_february:
  "lookup query_guide_rebound ''Which branch had the highest sales in February? Please tell me'' = None"
  by code_simp

text \<open>
  Claim C5. The running program does not give the sentence. The assignment of line 234
  replaces the dictionary that registered the February entry before the router is called
  for the first time, so on "Which branch had the highest sales in February? Please tell
  me" the loop finds no entry, the model is asked for a query, and the single row of
  branch B01, Silom, with sales 150000 comes back as plain \<^verbatim>\<open>key: value\<close> pairs.
\<close>

theorem february_entry_lost:
  "categorize_task
     \<lparr>client = february_warehouse, agent_01 = Some sql_agent, agent_02 = Some sql_agent,
      query_guide = query_guide_rebound\<rparr>
     ''Which branch had the highest sales in February? Please tell me'' =
     (Inr ''Branch_ID: B01, Branch_Name: Silom, Sales: 150000'',
      [GenerateContent
         (dynamic_query_prompt ''Which branch had the highest sales in February? Please tell me''),
       WarehouseQuery ''SELECT 1;'']) \<and>
   script february_render \<lparr>chat_history = [], sales_summary_displayed = True\<rparr> =
     (None,
      \<lparr>chat_history =
         [(''user'', ''Which branch had the highest sales in February? Please tell me''),
          (''agent_01'', ''Branch_ID: B01, Branch_Name: Silom, Sales: 150000'')],
       sales_summary_displayed = True\<rparr>)"
proof -
  let ?u = "''Which branch had the highest sales in February? Please tell me''"
  let ?g = "\<lparr>client = february_warehouse, agent_01 = Some sql_agent, agent_02 = Some sql_agent,
             query_guide = query_guide_rebound\<rparr>"
  have related: "is_query_related ?u"
    by (simp add: is_query_related_def query_related_keywords_def lower_def lower_char_def)
  have no_entry: "match_query_guide february_warehouse query_guide_rebound ?u = None"
    by (simp add: match_query_guide_lookup rebound_guide_misses_february)
  have stripped: "strip ''SELECT 1;\<newline>'' = ''SELECT 1;''"
    by (simp add: strip_def is_space_def)
  have rendered: "render_rows [february_row] = ''Branch_ID: B01, Branch_Name: Silom, Sales: 150000''"
    by (simp add: render_rows_def render_row_def february_row_def str_int_150000)
  have dynamic: "generate_dynamic_query february_warehouse sql_agent ?u =
      (Inr ''Branch_ID: B01, Branch_Name: Silom, Sales: 150000'',
       [GenerateContent (dynamic_query_prompt ?u), WarehouseQuery ''SELECT 1;''])"
    by (simp add: generate_dynamic_query_def sql_agent_def stripped february_warehouse_def
        rendered)
  have router: "categorize_task ?g ?u =
      (Inr ''Branch_ID: B01, Branch_Name: Silom, Sales: 150000'',
       [GenerateContent (dynamic_query_prompt ?u), WarehouseQuery ''SELECT 1;''])"
    using related by (simp add: categorize_task_def no_entry dynamic absorb_def)
  have agents: "configure_gemini ''secret'' sql_genai = (Some sql_agent, Some sql_agent, Some sql_agent)"
    by (simp add: configure_gemini_def sql_genai_def)
  have page: "script february_render \<lparr>chat_history = [], sales_summary_displayed = True\<rparr> =
      (None,
       \<lparr>chat_history = [(''user'', ?u), (''agent_01'', ''Branch_ID: B01, Branch_Name: Silom, Sales: 150000'')],
        sales_summary_displayed = True\<rparr>)"
    using related
    by (simp add: script_def february_render_def agents display_chat_page_def
        show_sales_summary_def handle_user_input_def router agent_role_def)
  from router page show ?thesis
    by simp
qed

section \<open>Exceptions at the router boundary\<close>

text \<open>
  On a data question everything raised below the router is absorbed: the router returns a
  text. On a general question the model's failure, or its blank answer, reaches
  \<^verbatim>\<open>random.choice\<close>, and the \<open>NameError\<close> raised there leaves the function.
\<close>

lemma data_question_never_raises:
  assumes "is_query_related user_input"
  shows "\<exists>answer. fst (categorize_task g user_input) = Inr answer"
  using assms
  by (simp add: categorize_task_def absorb_def split: option.split sum.split)

lemma general_answer_raises_iff:
  assumes "agent_02 g = Some agent"
  shows "fst (handle_general_questions g user_input) = Inl (NameError ''random'') \<longleftrightarrow>
           (\<exists>e. agent (general_prompt user_input) = Inl e) \<or>
           (\<exists>response_text. agent (general_prompt user_input) = Inr response_text \<and>
              strip response_text = [])"
  using assms
  by (auto simp add: handle_general_questions_def random_choice_def split: sum.split)

text \<open>
  Claim C4. With a model that raises on every call, and with one that answers with blanks
  only, the general-answer path does not return a fallback sentence: it raises
  \<open>NameError\<close>, because the module never imports \<^verbatim>\<open>random\<close>.
\<close>

theorem general_answer_name_error:
  "fst (handle_general_questions
     \<lparr>client = empty_warehouse, agent_01 = Some failing_agent, agent_02 = Some failing_agent,
      query_guide = query_guide_rebound\<rparr> ''hello'') = Inl (NameError ''random'') \<and>
   fst (handle_general_questions
     \<lparr>client = empty_warehouse, agent_01 = Some failing_agent, agent_02 = Some blank_agent,
      query_guide = query_guide_rebound\<rparr> ''hello'') = Inl (NameError ''random'')"
  by (simp add: handle_general_questions_def failing_agent_def blank_agent_def random_choice_def
      strip_def is_space_def)

text \<open>
  Claim C3. The same \<open>NameError\<close> passes through the router to its caller: on the
  greeting "hello", with a model that raises, \<^verbatim>\<open>categorize_task\<close> raises after the
  failure was logged.
\<close>

theorem router_name_error:
  "categorize_task
     \<lparr>client = empty_warehouse, agent_01 = Some failing_agent, agent_02 = Some failing_agent,
      query_guide = query_guide_rebound\<rparr> ''hello'' =
   (Inl (NameError ''random''),
    [GenerateContent (general_prompt ''hello''),
     LoggingError ''Error in Agent 02 response generation: '' (ServiceError ''unavailable'')])"
  by (simp add: categorize_task_def is_query_related_def query_related_keywords_def
      lower_def lower_char_def handle_general_questions_def failing_agent_def random_choice_def)

section \<open>Templates and missing placeholders\<close>






section \<open>Empty query results\<close>

text \<open>
  Claim C6, as the code has it. A query of a matched guide entry and a query written by the
  model give the text "No results found for your query." when they return no row. The
  daily summary query does not: with no row the summary is empty, and the chat shows
  "No sales summary available at the moment." instead.
\<close>

theorem zero_rows_messages:
  "(is_query_related user_text \<longrightarrow> agent_01 g = Some agent \<longrightarrow>
      lookup (query_guide g) user_text = Some (question, d) \<longrightarrow>
      client g (query d) = Inr [] \<longrightarrow>
      categorize_task g user_text =
        (Inr ''No results found for your query.'', [WarehouseQuery (query d)])) \<and>
   (is_query_related user_text \<longrightarrow> agent_01 g = Some agent \<longrightarrow>
      lookup (query_guide g) user_text = None \<longrightarrow>
      agent (dynamic_query_prompt user_text) = Inr response_text \<longrightarrow>
      client g (strip response_text) = Inr [] \<longrightarrow>
      categorize_task g user_text =
        (Inr ''No results found for your query.'',
         [GenerateContent (dynamic_query_prompt user_text),
          WarehouseQuery (strip response_text)])) \<and>
   (key \<noteq> [] \<longrightarrow> \<not> sales_summary_displayed st \<longrightarrow>
      cl sales_summary_query = Inr [] \<longrightarrow>
      chat_history (show_sales_summary cl key st) =
        chat_history st @ [(''assistant'', ''No sales summary available at the moment.'')])"
proof (intro conjI impI)
  assume "is_query_related user_text" and "agent_01 g = Some agent"
    and "lookup (query_guide g) user_text = Some (question, d)"
    and "client g (query d) = Inr []"
  then show "categorize_task g user_text =
      (Inr ''No results found for your query.'', [WarehouseQuery (query d)])"
    by (simp add: categorize_task_def match_query_guide_lookup run_guide_entry_def
        absorb_def no_results_def)
next
  assume "is_query_related user_text" and "agent_01 g = Some agent"
    and "lookup (query_guide g) user_text = None"
    and "agent (dynamic_query_prompt user_text) = Inr response_text"
    and "client g (strip response_text) = Inr []"
  then show "categorize_task g user_text =
      (Inr ''No results found for your query.'',
       [GenerateContent (dynamic_query_prompt user_text), WarehouseQuery (strip response_text)])"
    by (simp add: categorize_task_def match_query_guide_lookup generate_dynamic_query_def
        absorb_def no_results_def)
next
  assume "key \<noteq> []" and "\<not> sales_summary_displayed st"
    and "cl sales_summary_query = Inr []"
  then show "chat_history (show_sales_summary cl key st) =
      chat_history st @ [(''assistant'', ''No sales summary available at the moment.'')]"
    by (simp add: show_sales_summary_def display_sales_summary_def no_summary_message_def)
qed

theorem zero_rows_messages_witness:
  "categorize_task
     \<lparr>client = empty_warehouse, agent_01 = Some sql_agent, agent_02 = None,
      query_guide = query_guide_rebound\<rparr>
     ''End-of-month sales target overview'' =
     (Inr ''No results found for your query.'', [WarehouseQuery query_end_of_month_target]) \<and>
   categorize_task
     \<lparr>client = empty_warehouse, agent_01 = Some sql_agent, agent_02 = None,
      query_guide = query_guide_rebound\<rparr>
     ''Is there any branch nearby?'' =
     (Inr ''No results found for your query.'',
      [GenerateContent (dynamic_query_prompt ''Is there any branch nearby?''),
       WarehouseQuery ''SELECT 1;'']) \<and>
   chat_history (show_sales_summary empty_warehouse ''secret'' initial_session) =
     [(''assistant'', ''No sales summary available at the moment.'')]"
proof -
  let ?g = "\<lparr>client = empty_warehouse, agent_01 = Some sql_agent, agent_02 = None,
             query_guide = query_guide_rebound\<rparr>"
  let ?d = "\<lparr>query = query_end_of_month_target,
             response_template = ''End-of-month sales target overview for February 2024:\<newline>{result}''\<rparr>"
  have sel: "agent_01 ?g = Some sql_agent" "client ?g = empty_warehouse"
    "query_guide ?g = query_guide_rebound"
    by simp_all
  have related1: "is_query_related ''End-of-month sales target overview''"
    by code_simp
  have found: "lookup query_guide_rebound ''End-of-month sales target overview'' =
      Some (''End-of-month sales target overview'', ?d)"
    by code_simp
  have related2: "is_query_related ''Is there any branch nearby?''"
    by code_simp
  have missed: "lookup query_guide_rebound ''Is there any branch nearby?'' = None"
    by code_simp
  have written: "sql_agent (dynamic_query_prompt ''Is there any branch nearby?'') =
      Inr ''SELECT 1;\<newline>''"
    by (simp add: sql_agent_def)
  have stripped: "strip ''SELECT 1;\<newline>'' = ''SELECT 1;''"
    by (simp add: strip_def is_space_def)
  have empty: "empty_warehouse q = Inr []" for q
    by (simp add: empty_warehouse_def)
  have fresh: "\<not> sales_summary_displayed initial_session" "chat_history initial_session = []"
    by (simp_all add: initial_session_def)
  note thm1 = zero_rows_messages [of "''End-of-month sales target overview''" ?g sql_agent
      "''End-of-month sales target overview''" ?d, THEN conjunct1, unfolded sel]
  note thm2 = zero_rows_messages [of "''Is there any branch nearby?''" ?g sql_agent _ _
      "''SELECT 1;\<newline>''", THEN conjunct2, THEN conjunct1, unfolded sel]
  note thm3 = zero_rows_messages [of _ _ _ _ _ _ "''secret''" initial_session empty_warehouse,
      THEN conjunct2, THEN conjunct2]
  from thm1 related1 found empty
  have one: "categorize_task ?g ''End-of-month sales target overview'' =
      (Inr ''No results found for your query.'', [WarehouseQuery query_end_of_month_target])"
    by simp
  from thm2 related2 missed written stripped empty
  have two: "categorize_task ?g ''Is there any branch nearby?'' =
      (Inr ''No results found for your query.'',
       [GenerateContent (dynamic_query_prompt ''Is there any branch nearby?''),
        WarehouseQuery ''SELECT 1;''])"
    by simp
  from thm3 fresh empty
  have three: "chat_history (show_sales_summary empty_warehouse ''secret'' initial_session) =
      [(''assistant'', ''No sales summary available at the moment.'')]"
    by simp
  from one two three show ?thesis by simp
qed

text \<open>
  The claim as stated fails on the summary query: the first render of a session whose
  warehouse returns no row shows the message about the missing summary, which is not the
  text about no results.
\<close>

theorem summary_zero_rows_counterexample:
  "empty_warehouse sales_summary_query = Inr [] \<and>
   chat_history (snd (script first_render initial_session)) =
     [(''assistant'', ''No sales summary available at the moment.'')] \<and>
   ''No sales summary available at the moment.'' \<noteq> ''No results found for your query.''"
  by (simp add: empty_warehouse_def script_def first_render_def working_genai_def
      configure_gemini_def display_chat_page_def handle_user_input_def show_sales_summary_def
      display_sales_summary_def initial_session_def no_summary_message_def)

section \<open>The chat history\<close>

lemma summary_turns_append:
  "summary_turns (xs @ ys) = summary_turns xs @ summary_turns ys"
  by (simp add: summary_turns_def)

lemma summary_turns_single:
  "summary_turns [(role, message)] = (if role = ''assistant'' then [(role, message)] else [])"
  by (simp add: summary_turns_def)

lemma agent_role_not_assistant: "agent_role user_input \<noteq> ''assistant''"
  by (simp add: agent_role_def)

lemma show_sales_summary_flag:
  "sales_summary_displayed st \<Longrightarrow> show_sales_summary cl key st = st"
  by (simp add: show_sales_summary_def)

lemma show_sales_summary_count:
  assumes "summary_turns (chat_history st) = [] \<or>
           sales_summary_displayed st \<and> length (summary_turns (chat_history st)) = 1"
  shows "summary_turns (chat_history (show_sales_summary cl key st)) = [] \<or>
         sales_summary_displayed (show_sales_summary cl key st) \<and>
         length (summary_turns (chat_history (show_sales_summary cl key st))) = 1"
  using assms
  by (auto simp add: show_sales_summary_def summary_turns_append summary_turns_single
      split: option.splits)

lemma handle_user_input_flag:
  "sales_summary_displayed (snd (handle_user_input g input st)) = sales_summary_displayed st"
  by (simp add: handle_user_input_def Let_def split: option.split sum.split)

lemma handle_user_input_summary_turns:
  "summary_turns (chat_history (snd (handle_user_input g input st))) =
     summary_turns (chat_history st)"
  by (simp add: handle_user_input_def Let_def summary_turns_def
      agent_role_not_assistant split: option.split sum.split)

lemma display_chat_page_count:
  assumes "summary_turns (chat_history st) = [] \<or>
           sales_summary_displayed st \<and> length (summary_turns (chat_history st)) = 1"
  shows "summary_turns (chat_history (snd (display_chat_page g key input st))) = [] \<or>
         sales_summary_displayed (snd (display_chat_page g key input st)) \<and>
         length (summary_turns (chat_history (snd (display_chat_page g key input st)))) = 1"
  using show_sales_summary_count [OF assms, of "client g" key]
  by (simp add: display_chat_page_def handle_user_input_flag handle_user_input_summary_turns)

lemma script_count:
  assumes "summary_turns (chat_history st) = [] \<or>
           sales_summary_displayed st \<and> length (summary_turns (chat_history st)) = 1"
  shows "summary_turns (chat_history (snd (script r st))) = [] \<or>
         sales_summary_displayed (snd (script r st)) \<and>
         length (summary_turns (chat_history (snd (script r st)))) = 1"
proof (cases "configure_gemini (gemini_api_key r) (genai_api r)")
  case (fields model a1 a2)
  show ?thesis
  proof (cases "bigquery r")
    case (Inl e)
    with fields assms show ?thesis by (simp add: script_def)
  next
    case (Inr cl)
    show ?thesis
    proof (cases "page r")
      case Chat
      with fields Inr have "script r st =
          display_chat_page
            \<lparr>client = cl, agent_01 = a1, agent_02 = a2, query_guide = query_guide_rebound\<rparr>
            (gemini_api_key r) (chat_input r) st"
        by (simp add: script_def)
      then show ?thesis
        using display_chat_page_count [OF assms] by simp
    next
      case Dashboard
      with fields Inr assms show ?thesis by (simp add: script_def)
    qed
  qed
qed

lemma session_count:
  assumes "summary_turns (chat_history st) = [] \<or>
           sales_summary_displayed st \<and> length (summary_turns (chat_history st)) = 1"
  shows "length (summary_turns (chat_history (session runs st))) \<le> 1"
  using assms
proof (induction runs arbitrary: st)
  case Nil
  then show ?case by auto
next
  case (Cons r runs)
  from Cons.prems have "summary_turns (chat_history (snd (script r st))) = [] \<or>
      sales_summary_displayed (snd (script r st)) \<and>
      length (summary_turns (chat_history (snd (script r st)))) = 1"
    by (rule script_count)
  then show ?case
    using Cons.IH by simp
qed

text \<open>
  Claim C7. In every state a session reaches from its initial state, over any sequence of
  runs of the script, the history holds at most one summary turn.
\<close>

theorem summary_at_most_once:
  "length (summary_turns (chat_history (session runs initial_session))) \<le> 1"
  by (rule session_count) (simp add: initial_session_def summary_turns_def)

lemma first_render_shows_message:
  "script first_render initial_session =
     (None,
      \<lparr>chat_history = [(''assistant'', ''No sales summary available at the moment.'')],
       sales_summary_displayed = True\<rparr>)"
  by (simp add: empty_warehouse_def script_def first_render_def working_genai_def
      configure_gemini_def display_chat_page_def handle_user_input_def show_sales_summary_def
      display_sales_summary_def initial_session_def no_summary_message_def)

theorem summary_at_most_once_witness:
  "chat_history (session [first_render, first_render] initial_session) =
     [(''assistant'', ''No sales summary available at the moment.'')] \<and>
   length (summary_turns (chat_history (session [first_render, first_render] initial_session))) \<le> 1"
proof (rule conjI)
  have "script first_render
      \<lparr>chat_history = [(''assistant'', ''No sales summary available at the moment.'')],
       sales_summary_displayed = True\<rparr> =
     (None,
      \<lparr>chat_history = [(''assistant'', ''No sales summary available at the moment.'')],
       sales_summary_displayed = True\<rparr>)"
    by (simp add: script_def first_render_def working_genai_def configure_gemini_def
        display_chat_page_def handle_user_input_def show_sales_summary_def)
  then show "chat_history (session [first_render, first_render] initial_session) =
      [(''assistant'', ''No sales summary available at the moment.'')]"
    by (simp add: first_render_shows_message)
  show "length (summary_turns
      (chat_history (session [first_render, first_render] initial_session))) \<le> 1"
    by (rule summary_at_most_once)
qed

lemma show_sales_summary_prefix:
  "prefix (chat_history st) (chat_history (show_sales_summary cl key st))"
  by (simp add: show_sales_summary_def split: option.split)

lemma handle_user_input_prefix:
  "prefix (chat_history st) (chat_history (snd (handle_user_input g input st)))"
  by (simp add: handle_user_input_def Let_def split: option.split sum.split)

lemma script_prefix:
  "prefix (chat_history st) (chat_history (snd (script r st)))"
proof -
  have "prefix (chat_history st) (chat_history (snd (display_chat_page g key input st)))"
    for g key input
    unfolding display_chat_page_def
    using show_sales_summary_prefix handle_user_input_prefix
    by (rule prefix_order.trans)
  then show ?thesis
    by (simp add: script_def split: prod.split sum.split page_name.split)
qed

lemma session_prefix:
  "prefix (chat_history st) (chat_history (session runs st))"
proof (induction runs arbitrary: st)
  case Nil
  show ?case by simp
next
  case (Cons r runs)
  have "prefix (chat_history st) (chat_history (snd (script r st)))"
    by (rule script_prefix)
  also have "prefix (chat_history (snd (script r st))) (chat_history (session (r # runs) st))"
    using Cons.IH by simp
  finally show ?case .
qed

text \<open>
  Claim C9. The history only grows: showing the summary, taking a user input with the
  router's answer, one run of the script and any sequence of runs each leave the old
  history as a prefix of the new one.
\<close>

theorem chat_history_append_only:
  "prefix (chat_history st) (chat_history (show_sales_summary cl key st)) \<and>
   prefix (chat_history st) (chat_history (snd (handle_user_input g input st))) \<and>
   prefix (chat_history st) (chat_history (snd (script r st))) \<and>
   prefix (chat_history st) (chat_history (session runs st))"
  by (simp add: show_sales_summary_prefix handle_user_input_prefix script_prefix session_prefix)

theorem chat_history_append_only_witness:
  "prefix [(''assistant'', ''No sales summary available at the moment.'')]
     (chat_history
       (session [question_render, greeting_render] (snd (script first_render initial_session))))"
proof -
  have shown: "chat_history (snd (script first_render initial_session)) =
      [(''assistant'', ''No sales summary available at the moment.'')]"
    by (simp add: first_render_shows_message)
  from chat_history_append_only [of "snd (script first_render initial_session)" _ _ _ _ _
      "[question_render, greeting_render]"]
  have "prefix (chat_history (snd (script first_render initial_session)))
      (chat_history
        (session [question_render, greeting_render] (snd (script first_render initial_session))))"
    by blast
  then show ?thesis
    unfolding shown .
qed

end
